theory Spec2Isabelle
  imports Complex_Main
begin

section \<open>Attachment metadata\<close>

text \<open>
  A Go \<^verbatim>\<open>string\<close> is a sequence of bytes, so a string is a \<^typ>\<open>char list\<close> and
  \<^const>\<open>length\<close> is Go's \<^verbatim>\<open>len\<close>.
\<close>

text \<open>
  Modelled from the spec: the type \<^verbatim>\<open>User\<close> is declared outside the files at hand. It
  is the author of the JSON shape, \<^verbatim>\<open>{displayName, accountId|name}\<close>, with the fields
  the tests set.
\<close>

record User =
  DisplayName :: string
  AccountID :: string

text \<open>
  Modelled from the spec: the type \<^verbatim>\<open>Attachment\<close> is declared outside the files at
  hand. It follows the JSON shape
  \<^verbatim>\<open>{id, filename, author, created, size, mimeType, content}\<close> and the fields the
  commands read. \<^verbatim>\<open>Size\<close> is an \<^verbatim>\<open>int64\<close>; no arithmetic is done on it apart from the
  conversion to \<^verbatim>\<open>float64\<close>, so it is an \<^typ>\<open>int\<close>.
\<close>

record Attachment =
  ID :: string
  Filename :: string
  Author :: User
  Created :: string
  Size :: int
  MimeType :: string
  Content :: string

section \<open>Formatting verbs of \<^verbatim>\<open>fmt\<close>\<close>

definition digit_char :: "nat \<Rightarrow> char" where
  "digit_char d = ''0123456789'' ! (d mod 10)"

fun decimal :: "nat \<Rightarrow> string" where
  "decimal n = (if n < 10 then [digit_char n] else decimal (n div 10) @ [digit_char (n mod 10)])"

declare decimal.simps [simp del]

text \<open>\<^verbatim>\<open>%d\<close> of a signed integer.\<close>

definition sprintf_d :: "int \<Rightarrow> string" where
  "sprintf_d n = (if n < 0 then ''-'' @ decimal (nat (- n)) else decimal (nat n))"

text \<open>
  A finite \<^verbatim>\<open>float64\<close> is a rational number. \<^verbatim>\<open>float64(n)\<close> of an integer rounds it to
  53 significant bits, ties to even; no \<^verbatim>\<open>int64\<close> is large enough to overflow.
\<close>

definition round_half_even :: "rat \<Rightarrow> int" where
  "round_half_even x =
     (let f = \<lfloor>x\<rfloor>; d = x - of_int f
      in if d < 1 / 2 then f
         else if 1 / 2 < d then f + 1
         else if even f then f else f + 1)"

fun bit_length :: "nat \<Rightarrow> nat" where
  "bit_length n = (if n = 0 then 0 else Suc (bit_length (n div 2)))"

declare bit_length.simps [simp del]

definition float64 :: "int \<Rightarrow> rat" where
  "float64 n =
     (let a = nat \<bar>n\<bar>; p = bit_length a - 53
      in if p = 0 then of_int n
         else of_int (sgn n * round_half_even (of_nat a / 2 ^ p) * 2 ^ p))"

text \<open>
  \<^verbatim>\<open>%.2f\<close>: the sign, then the value rounded to hundredths (the exact decimal expansion
  of the binary value, ties to even), with exactly two digits after the point.
\<close>

definition sprintf_2f :: "rat \<Rightarrow> string" where
  "sprintf_2f x =
     (let q = nat (round_half_even (\<bar>x\<bar> * 100))
      in (if x < 0 then ''-'' else '''') @ decimal (q div 100) @ ''.''
           @ [digit_char (q mod 100 div 10), digit_char (q mod 10)])"

section \<open>Rendering the attachment list\<close>

definition KB :: int where "KB = 1024"
definition MB :: int where "MB = KB * 1024"
definition GB :: int where "GB = MB * 1024"

text \<open>
  The divisors are powers of two, so the \<^verbatim>\<open>float64\<close> division only lowers the exponent
  and its quotient is the exact one.
\<close>

definition formatSize :: "int \<Rightarrow> string" where
  "formatSize bytes =
     (if bytes \<ge> GB then sprintf_2f (float64 bytes / float64 GB) @ '' GB''
      else if bytes \<ge> MB then sprintf_2f (float64 bytes / float64 MB) @ '' MB''
      else if bytes \<ge> KB then sprintf_2f (float64 bytes / float64 KB) @ '' KB''
      else sprintf_d bytes @ '' B'')"

text \<open>
  The slice expression \<^verbatim>\<open>s[:n]\<close> panics when \<^verbatim>\<open>n > len(s)\<close>; \<^const>\<open>None\<close> is the
  panic.
\<close>

definition slice_to :: "string \<Rightarrow> nat \<Rightarrow> string option" where
  "slice_to s n = (if n \<le> length s then Some (take n s) else None)"

definition formatDate :: "string \<Rightarrow> string option" where
  "formatDate date = (if length date > 10 then slice_to date 10 else Some date)"

text \<open>
  \<^verbatim>\<open>range s\<close> walks the runes of \<^verbatim>\<open>s\<close>. The three runes looked for are ASCII, and a byte
  below 128 is always a rune of its own in the UTF-8 decoding (also after an invalid
  byte), so the loop is a loop over the bytes.
\<close>

fun containsSpecialChar :: "string \<Rightarrow> bool" where
  "containsSpecialChar [] = False"
| "containsSpecialChar (ch # s) =
     (if ch = CHR '','' \<or> ch = CHR 0x22 \<or> ch = CHR 0x0A then True else containsSpecialChar s)"

definition escapeCSV :: "string \<Rightarrow> string" where
  "escapeCSV s = (if containsSpecialChar s then [CHR 0x22] @ s @ [CHR 0x22] else s)"

text \<open>
  The writer is the text written so far; \<^verbatim>\<open>Fprintf\<close> appends to it, and its error result
  is dropped by the source.
\<close>

fun renderCSV_loop :: "string \<Rightarrow> Attachment list \<Rightarrow> string" where
  "renderCSV_loop w [] = w"
| "renderCSV_loop w (a # attachments) =
     renderCSV_loop
       (w @ ID a @ '','' @ escapeCSV (Filename a) @ '','' @ sprintf_d (Size a) @ '',''
          @ escapeCSV (DisplayName (Author a)) @ '','' @ Created a @ [CHR 0x0A])
       attachments"

definition renderCSV :: "string \<Rightarrow> Attachment list \<Rightarrow> string" where
  "renderCSV w attachments =
     renderCSV_loop (w @ ''ID,FILENAME,SIZE,AUTHOR,CREATED'' @ [CHR 0x0A]) attachments"

text \<open>What the properties of the output are stated with.\<close>

definition is_digit :: "char \<Rightarrow> bool" where
  "is_digit c = (c \<in> set ''0123456789'')"

definition two_decimals :: "string \<Rightarrow> bool" where
  "two_decimals s =
     (let n = length s
      in 4 \<le> n \<and> s ! (n - 3) = CHR ''.'' \<and> list_all is_digit (take (n - 3) s)
           \<and> list_all is_digit (drop (n - 2) s))"

text \<open>The attachments of \<^verbatim>\<open>TestRenderCSV\<close>.\<close>

definition test_attachments :: "Attachment list" where
  "test_attachments =
     [\<lparr>ID = ''10001'', Filename = ''document.pdf'',
        Author = \<lparr>DisplayName = ''John Doe'', AccountID = []\<rparr>,
        Created = ''2020-12-01T10:00:00.000+0100'', Size = 1048576,
        MimeType = [], Content = []\<rparr>,
      \<lparr>ID = ''10002'', Filename = ''file, with comma.txt'',
        Author = \<lparr>DisplayName = ''Jane Smith'', AccountID = []\<rparr>,
        Created = ''2020-12-02T15:30:00.000+0100'', Size = 524288,
        MimeType = [], Content = []\<rparr>]"

section \<open>The platform: requests, responses, files\<close>

text \<open>
  Modelled from the spec: the error values \<^verbatim>\<open>ErrEmptyResponse\<close> and
  \<^verbatim>\<open>ErrUnexpectedResponse\<close> of the package are declared outside the files at hand. The
  first is the condition of an absent response; the second carries the structured
  error messages of the server, the status line and the status code.

  The other values of an \<^verbatim>\<open>error\<close>: \<open>LibError\<close> is an error that a call into \<^verbatim>\<open>os\<close>,
  \<^verbatim>\<open>io\<close>, \<^verbatim>\<open>mime/multipart\<close>, \<^verbatim>\<open>net/http\<close> or \<^verbatim>\<open>encoding/json\<close> returned and that the
  client hands on as it is, and \<open>Errorf\<close> is the error \<^verbatim>\<open>fmt.Errorf\<close> builds, with its
  text. \<open>NilPointerPanic\<close> is not a returned value: it is the run-time panic of a field
  read through a \<^verbatim>\<open>nil\<close> response.
\<close>

datatype error =
    LibError string
  | Errorf string
  | ErrEmptyResponse
  | ErrUnexpectedResponse "string list" string int
  | NilPointerPanic

record Request =
  Method :: string
  URL :: string
  Header :: "string \<rightharpoonup> string list"
  ReqBody :: string

record Response =
  StatusCode :: int
  Status :: string
  Body :: string

text \<open>
  What the calls outside the repository answer. The failures are oracles: \<open>Some e\<close> is
  the call failing with the error text \<open>e\<close>. \<open>copyError\<close> also says after how many bytes
  the copy stops. The two JSON decoders and the pure helpers of \<^verbatim>\<open>path/filepath\<close> and
  \<^verbatim>\<open>mime/multipart\<close> are functions.
\<close>

record sys =
  urlError :: "string \<Rightarrow> string option"
  openError :: "string \<Rightarrow> string option"
  createError :: "string \<Rightarrow> string option"
  copyError :: "string \<Rightarrow> (nat \<times> string) option"
  mkdirAll :: "string \<Rightarrow> string set \<Rightarrow> string + string set"
  createFormFileError :: "string \<Rightarrow> string option"
  readError :: "string \<Rightarrow> string option"
  closeError :: "string option"
  formData :: "string \<Rightarrow> string \<Rightarrow> string"
  formDataContentType :: string
  filepathBase :: "string \<Rightarrow> string"
  filepathJoin :: "string \<Rightarrow> string \<Rightarrow> string"
  jsonAttachments :: "string \<Rightarrow> string + Attachment list"
  jsonErrors :: "string \<Rightarrow> string list"

text \<open>
  The state the operations change: the regular files with their content, the
  directories, and the requests handed to the HTTP client so far, oldest first.
\<close>

record world =
  files :: "string \<rightharpoonup> string"
  dirs :: "string set"
  sent :: "Request list"

text \<open>
  Modelled from the spec: the type \<^verbatim>\<open>AuthType\<close> is declared outside the files at hand.
  Its modes are basic, bearer and mutual TLS; \<open>AuthTypeOther\<close> stands for any other
  value, for which the \<^verbatim>\<open>switch\<close> of \<^verbatim>\<open>applyAuth\<close> has no branch.
\<close>

datatype AuthType = AuthTypeBasic | AuthTypeBearer | AuthTypeMTLS | AuthTypeOther string

text \<open>
  Modelled from the spec: the type \<^verbatim>\<open>Client\<close> is declared outside the files at hand.
  These are the fields that the attachment operations read: the server base URL, the
  login and token, the authentication mode, which may be unset, and the injectable
  transport, which answers a request with the pair \<^verbatim>\<open>(res, err)\<close> of
  \<^verbatim>\<open>http.Client.Do\<close>.
\<close>

record Client =
  server :: string
  login :: string
  token :: string
  authType :: "AuthType option"
  transport :: "Request \<Rightarrow> Response option \<times> string option"

definition NewRequest :: "sys \<Rightarrow> string \<Rightarrow> string \<Rightarrow> string \<Rightarrow> error + Request" where
  "NewRequest sy method url body =
     (case urlError sy url of
        Some e \<Rightarrow> Inl (LibError e)
      | None \<Rightarrow> Inr \<lparr>Method = method, URL = url, Header = Map.empty, ReqBody = body\<rparr>)"

text \<open>
  \<^verbatim>\<open>http.Header\<close>. The keys used here are already in canonical form, so \<^verbatim>\<open>Set\<close> and
  \<^verbatim>\<open>Add\<close> use them as they are.
\<close>

definition Header_Set :: "(string \<rightharpoonup> string list) \<Rightarrow> string \<Rightarrow> string \<Rightarrow> (string \<rightharpoonup> string list)" where
  "Header_Set h k v = h(k \<mapsto> [v])"

definition Header_Add :: "(string \<rightharpoonup> string list) \<Rightarrow> string \<Rightarrow> string \<Rightarrow> (string \<rightharpoonup> string list)" where
  "Header_Add h k v = h(k \<mapsto> (case h k of None \<Rightarrow> [] | Some vs \<Rightarrow> vs) @ [v])"

definition Header_Get :: "(string \<rightharpoonup> string list) \<Rightarrow> string \<Rightarrow> string" where
  "Header_Get h k = (case h k of Some (v # _) \<Rightarrow> v | _ \<Rightarrow> [])"

definition base64_alphabet :: string where
  "base64_alphabet = ''ABCDEFGHIJKLMNOPQRSTUVWXYZabcdefghijklmnopqrstuvwxyz0123456789+/''"

definition sextet :: "nat \<Rightarrow> char" where
  "sextet n = base64_alphabet ! (n mod 64)"

fun base64 :: "string \<Rightarrow> string" where
  "base64 [] = []"
| "base64 [a] =
     (let n = of_char a * 16 in [sextet (n div 64), sextet n] @ ''=='')"
| "base64 [a, b] =
     (let n = (of_char a * 256 + of_char b) * 4
      in [sextet (n div 4096), sextet (n div 64), sextet n] @ ''='')"
| "base64 (a # b # c # s) =
     (let n = of_char a * 65536 + of_char b * 256 + of_char c
      in [sextet (n div 262144), sextet (n div 4096), sextet (n div 64), sextet n] @ base64 s)"

definition SetBasicAuth :: "Request \<Rightarrow> string \<Rightarrow> string \<Rightarrow> Request" where
  "SetBasicAuth req username password =
     req\<lparr>Header := Header_Set (Header req) ''Authorization''
            (''Basic '' @ base64 (username @ '':'' @ password))\<rparr>"

definition Do :: "Client \<Rightarrow> Request \<Rightarrow> world \<Rightarrow> (Response option \<times> string option) \<times> world" where
  "Do c req w = (transport c req, w\<lparr>sent := sent w @ [req]\<rparr>)"

text \<open>
  \<^verbatim>\<open>os.Open\<close> of a path for reading; \<^verbatim>\<open>os.Create\<close>, which makes the file or empties it;
  \<^verbatim>\<open>io.Copy\<close> of a body into the created file; \<^verbatim>\<open>os.Stat\<close> answering without error.
\<close>

definition Open :: "sys \<Rightarrow> string \<Rightarrow> world \<Rightarrow> error + string" where
  "Open sy name w =
     (case files w name of
        None \<Rightarrow> Inl (LibError (''open '' @ name @ '': no such file or directory''))
      | Some content \<Rightarrow>
          (case openError sy name of Some e \<Rightarrow> Inl (LibError e) | None \<Rightarrow> Inr content))"

definition Create :: "sys \<Rightarrow> string \<Rightarrow> world \<Rightarrow> error + world" where
  "Create sy name w =
     (case createError sy name of
        Some e \<Rightarrow> Inl (LibError e)
      | None \<Rightarrow> Inr (w\<lparr>files := (files w)(name \<mapsto> [])\<rparr>))"

definition Copy :: "sys \<Rightarrow> string \<Rightarrow> string \<Rightarrow> world \<Rightarrow> error option \<times> world" where
  "Copy sy name body w =
     (case copyError sy name of
        Some (n, e) \<Rightarrow> (Some (LibError e), w\<lparr>files := (files w)(name \<mapsto> take n body)\<rparr>)
      | None \<Rightarrow> (None, w\<lparr>files := (files w)(name \<mapsto> body)\<rparr>))"

definition Stat_ok :: "string \<Rightarrow> world \<Rightarrow> bool" where
  "Stat_ok name w = (name \<in> dom (files w) \<or> name \<in> dirs w)"

section \<open>The client: authentication, download, upload, delete\<close>

text \<open>
  \<^verbatim>\<open>applyAuth\<close> has a pointer receiver and a pointer argument and writes to both, so it
  returns the client and the request.
\<close>

definition applyAuth :: "Client \<Rightarrow> Request \<Rightarrow> Client \<times> Request" where
  "applyAuth c req =
     (let c = (if authType c = None then c\<lparr>authType := Some AuthTypeBasic\<rparr> else c)
      in case authType c of
           Some AuthTypeMTLS \<Rightarrow>
             (if token c \<noteq> []
              then (c, req\<lparr>Header := Header_Add (Header req) ''Authorization''
                                     (''Bearer '' @ token c)\<rparr>)
              else (c, req))
         | Some AuthTypeBearer \<Rightarrow>
             (c, req\<lparr>Header := Header_Add (Header req) ''Authorization''
                                (''Bearer '' @ token c)\<rparr>)
         | Some AuthTypeBasic \<Rightarrow> (c, SetBasicAuth req (login c) (token c))
         | _ \<Rightarrow> (c, req))"

definition DownloadAttachment ::
  "sys \<Rightarrow> Client \<Rightarrow> string \<Rightarrow> string \<Rightarrow> world \<Rightarrow> error option \<times> Client \<times> world" where
  "DownloadAttachment sy c url destPath w =
     (case NewRequest sy ''GET'' url [] of
        Inl err \<Rightarrow> (Some err, c, w)
      | Inr req \<Rightarrow>
          (case applyAuth c req of
             (c, req) \<Rightarrow>
               (case Do c req w of
                  ((res, Some e), w) \<Rightarrow> (Some (LibError e), c, w)
                | ((None, None), w) \<Rightarrow> (Some NilPointerPanic, c, w)
                | ((Some res, None), w) \<Rightarrow>
                    if StatusCode res \<noteq> 200
                    then (Some (Errorf (''failed to download attachment: '' @ Status res)), c, w)
                    else (case Create sy destPath w of
                            Inl err \<Rightarrow> (Some err, c, w)
                          | Inr w \<Rightarrow>
                              (case Copy sy destPath (Body res) w of
                                 (err, w) \<Rightarrow> (err, c, w))))))"

text \<open>
  Modelled from the spec: the constant \<^verbatim>\<open>apiVersion2\<close> is declared outside the files at
  hand. It names the generation v2.
\<close>

definition apiVersion2 :: string where "apiVersion2 = ''v2''"

text \<open>
  Modelled from the spec: the constant \<^verbatim>\<open>apiVersion3\<close> is declared outside the files at
  hand. It names the generation v3.
\<close>

definition apiVersion3 :: string where "apiVersion3 = ''v3''"

text \<open>
  Modelled from the spec: the constant \<^verbatim>\<open>baseURLv2\<close> is declared outside the files at
  hand. It is the base prefix of the v2 paths in the REST table, which is also the one
  in the paths the tests of the client expect.
\<close>

definition baseURLv2 :: string where "baseURLv2 = ''/rest/api/2''"

text \<open>
  Modelled from the spec: the constant \<^verbatim>\<open>baseURLv3\<close> is declared outside the files at
  hand. It is the base prefix of the v3 paths in the REST table, which is also the one
  in the paths the tests of the client expect.
\<close>

definition baseURLv3 :: string where "baseURLv3 = ''/rest/api/3''"

text \<open>
  Modelled from the spec: \<^verbatim>\<open>formatUnexpectedResponse\<close> is not in the files at hand. It
  makes the \<^verbatim>\<open>ErrUnexpectedResponse\<close> that carries the status of the response and the
  structured error messages decoded from its body.
\<close>

definition formatUnexpectedResponse :: "sys \<Rightarrow> Response \<Rightarrow> error" where
  "formatUnexpectedResponse sy res =
     ErrUnexpectedResponse (jsonErrors sy (Body res)) (Status res) (StatusCode res)"

text \<open>\<^verbatim>\<open>Header\<close> of the package is a \<^verbatim>\<open>map[string]string\<close>; its keys here are distinct.\<close>

fun set_headers :: "Request \<Rightarrow> (string \<times> string) list \<Rightarrow> Request" where
  "set_headers req [] = req"
| "set_headers req ((k, v) # headers) =
     set_headers (req\<lparr>Header := Header_Set (Header req) k v\<rparr>) headers"

definition postWithHeaders ::
  "sys \<Rightarrow> Client \<Rightarrow> string \<Rightarrow> string \<Rightarrow> (string \<times> string) list \<Rightarrow> world
     \<Rightarrow> (Response option \<times> error option) \<times> Client \<times> world" where
  "postWithHeaders sy c endpoint body headers w =
     (case NewRequest sy ''POST'' endpoint body of
        Inl err \<Rightarrow> ((None, Some err), c, w)
      | Inr req \<Rightarrow>
          (case applyAuth c (set_headers req headers) of
             (c, req) \<Rightarrow>
               (case Do c req w of
                  ((res, err), w) \<Rightarrow> ((res, map_option LibError err), c, w))))"

definition uploadAttachment ::
  "sys \<Rightarrow> Client \<Rightarrow> string \<Rightarrow> string \<Rightarrow> string \<Rightarrow> world
     \<Rightarrow> (error + Attachment list) \<times> Client \<times> world" where
  "uploadAttachment sy c key filePath ver w =
     (case Open sy filePath w of
        Inl err \<Rightarrow> (Inl err, c, w)
      | Inr content \<Rightarrow>
          (case createFormFileError sy (filepathBase sy filePath) of
             Some e \<Rightarrow> (Inl (LibError e), c, w)
           | None \<Rightarrow>
               (case readError sy filePath of
                  Some e \<Rightarrow> (Inl (LibError e), c, w)
                | None \<Rightarrow>
                    (case closeError sy of
                       Some e \<Rightarrow> (Inl (LibError e), c, w)
                     | None \<Rightarrow>
                         (let path = ''/issue/'' @ key @ ''/attachments'';
                              body = formData sy (filepathBase sy filePath) content;
                              headers = [(''Content-Type'', formDataContentType sy),
                                         (''X-Atlassian-Token'', ''no-check'')]
                          in case (if ver = apiVersion2
                                   then postWithHeaders sy c (server c @ baseURLv2 @ path)
                                          body headers w
                                   else postWithHeaders sy c (server c @ baseURLv3 @ path)
                                          body headers w) of
                               ((res, Some err), c, w) \<Rightarrow> (Inl err, c, w)
                             | ((None, None), c, w) \<Rightarrow> (Inl ErrEmptyResponse, c, w)
                             | ((Some res, None), c, w) \<Rightarrow>
                                 if StatusCode res \<noteq> 200
                                 then (Inl (formatUnexpectedResponse sy res), c, w)
                                 else (case jsonAttachments sy (Body res) of
                                         Inl e \<Rightarrow> (Inl (LibError e), c, w)
                                       | Inr attachments \<Rightarrow> (Inr attachments, c, w)))))))"

definition UploadAttachment ::
  "sys \<Rightarrow> Client \<Rightarrow> string \<Rightarrow> string \<Rightarrow> world \<Rightarrow> (error + Attachment list) \<times> Client \<times> world" where
  "UploadAttachment sy c key filePath w = uploadAttachment sy c key filePath apiVersion3 w"

definition UploadAttachmentV2 ::
  "sys \<Rightarrow> Client \<Rightarrow> string \<Rightarrow> string \<Rightarrow> world \<Rightarrow> (error + Attachment list) \<times> Client \<times> world" where
  "UploadAttachmentV2 sy c key filePath w = uploadAttachment sy c key filePath apiVersion2 w"

text \<open>
  Modelled from the spec: \<^verbatim>\<open>request\<close> is not in the files at hand. It issues an
  authenticated request of the given method to the endpoint, as \<^verbatim>\<open>postWithHeaders\<close>
  does for \<^verbatim>\<open>POST\<close>.
\<close>

definition request ::
  "sys \<Rightarrow> Client \<Rightarrow> string \<Rightarrow> string \<Rightarrow> string \<Rightarrow> (string \<times> string) list \<Rightarrow> world
     \<Rightarrow> (Response option \<times> error option) \<times> Client \<times> world" where
  "request sy c method endpoint body headers w =
     (case NewRequest sy method endpoint body of
        Inl err \<Rightarrow> ((None, Some err), c, w)
      | Inr req \<Rightarrow>
          (case applyAuth c (set_headers req headers) of
             (c, req) \<Rightarrow>
               (case Do c req w of
                  ((res, err), w) \<Rightarrow> ((res, map_option LibError err), c, w))))"

text \<open>
  Modelled from the spec: \<^verbatim>\<open>DeleteV2\<close> is not in the files at hand. It is the
  authenticated \<^verbatim>\<open>DELETE\<close> of a path below the v2 base prefix.
\<close>

definition DeleteV2 ::
  "sys \<Rightarrow> Client \<Rightarrow> string \<Rightarrow> (string \<times> string) list \<Rightarrow> world
     \<Rightarrow> (Response option \<times> error option) \<times> Client \<times> world" where
  "DeleteV2 sy c path headers w = request sy c ''DELETE'' (server c @ baseURLv2 @ path) [] headers w"

text \<open>The helper \<^verbatim>\<open>delete\<close> of the client, for a full endpoint.\<close>

definition delete ::
  "sys \<Rightarrow> Client \<Rightarrow> string \<Rightarrow> (string \<times> string) list \<Rightarrow> world
     \<Rightarrow> (Response option \<times> error option) \<times> Client \<times> world" where
  "delete sy c endpoint headers w = request sy c ''DELETE'' endpoint [] headers w"

definition deleteAttachment ::
  "sys \<Rightarrow> Client \<Rightarrow> string \<Rightarrow> string \<Rightarrow> world \<Rightarrow> error option \<times> Client \<times> world" where
  "deleteAttachment sy c attachmentID ver w =
     (let path = ''/attachment/'' @ attachmentID
      in case (if ver = apiVersion2 then DeleteV2 sy c path [] w
               else delete sy c (server c @ baseURLv3 @ path) [] w) of
           ((res, Some err), c, w) \<Rightarrow> (Some err, c, w)
         | ((None, None), c, w) \<Rightarrow> (Some ErrEmptyResponse, c, w)
         | ((Some res, None), c, w) \<Rightarrow>
             if StatusCode res \<noteq> 204 \<and> StatusCode res \<noteq> 200
             then (Some (formatUnexpectedResponse sy res), c, w)
             else (None, c, w))"

definition DeleteAttachment ::
  "sys \<Rightarrow> Client \<Rightarrow> string \<Rightarrow> world \<Rightarrow> error option \<times> Client \<times> world" where
  "DeleteAttachment sy c attachmentID w = deleteAttachment sy c attachmentID apiVersion3 w"

definition DeleteAttachmentV2 ::
  "sys \<Rightarrow> Client \<Rightarrow> string \<Rightarrow> world \<Rightarrow> error option \<times> Client \<times> world" where
  "DeleteAttachmentV2 sy c attachmentID w = deleteAttachment sy c attachmentID apiVersion2 w"

text \<open>
  Modelled from the spec: the installation flavors are declared outside the files at
  hand. A flavor is \<^verbatim>\<open>cloud\<close> or \<^verbatim>\<open>local\<close>, and the setting may be unset.
\<close>

datatype InstallationType = InstallationTypeCloud | InstallationTypeLocal

text \<open>
  Modelled from the spec: \<^verbatim>\<open>ProxyUploadAttachment\<close> of the package \<^verbatim>\<open>api\<close> is not in the
  files at hand, only its test is. The flavor \<^verbatim>\<open>local\<close> selects the v2 upload, \<^verbatim>\<open>cloud\<close>
  and an unset flavor select the v3 one.
\<close>

definition ProxyUploadAttachment ::
  "sys \<Rightarrow> InstallationType option \<Rightarrow> Client \<Rightarrow> string \<Rightarrow> string \<Rightarrow> world
     \<Rightarrow> (error + Attachment list) \<times> Client \<times> world" where
  "ProxyUploadAttachment sy installation c key filePath w =
     (if installation = Some InstallationTypeLocal
      then UploadAttachmentV2 sy c key filePath w
      else UploadAttachment sy c key filePath w)"

text \<open>
  Modelled from the spec: \<^verbatim>\<open>ProxyDeleteAttachment\<close> of the package \<^verbatim>\<open>api\<close> is not in the
  files at hand, only its test is. The flavor \<^verbatim>\<open>local\<close> selects the v2 delete, \<^verbatim>\<open>cloud\<close>
  and an unset flavor select the v3 one.
\<close>

definition ProxyDeleteAttachment ::
  "sys \<Rightarrow> InstallationType option \<Rightarrow> Client \<Rightarrow> string \<Rightarrow> world
     \<Rightarrow> error option \<times> Client \<times> world" where
  "ProxyDeleteAttachment sy installation c attachmentID w =
     (if installation = Some InstallationTypeLocal
      then DeleteAttachmentV2 sy c attachmentID w
      else DeleteAttachment sy c attachmentID w)"

section \<open>The download command\<close>

text \<open>
  Modelled from the spec: \<^verbatim>\<open>cmdutil.Failed\<close> and \<^verbatim>\<open>cmdutil.ExitIfError\<close> are not in the
  files at hand. Both print a message and terminate the process with a non-zero status,
  \<^verbatim>\<open>ExitIfError\<close> only for an error that is not \<^verbatim>\<open>nil\<close>. \<open>Failed\<close> keeps the format and its
  arguments. A function that calls one of them returns the exit in place of its result,
  and the statements after the call are not reached.
\<close>

datatype exit = Failed string "string list" | ExitIfError error

record downloadParams =
  issueKey :: string
  filename :: string
  all' :: bool
  id' :: string
  outputDir :: string
  debug :: bool

fun findAttachmentByID :: "Attachment list \<Rightarrow> string \<Rightarrow> exit + Attachment list" where
  "findAttachmentByID [] i = Inl (Failed ''Attachment with ID %q not found'' [i])"
| "findAttachmentByID (a # attachments) i =
     (if ID a = i then Inr [a] else findAttachmentByID attachments i)"

fun findAttachmentByFilename :: "Attachment list \<Rightarrow> string \<Rightarrow> exit + Attachment list" where
  "findAttachmentByFilename [] f = Inl (Failed ''Attachment with filename %q not found'' [f])"
| "findAttachmentByFilename (a # attachments) f =
     (if Filename a = f then Inr [a] else findAttachmentByFilename attachments f)"

definition MkdirAll :: "sys \<Rightarrow> string \<Rightarrow> world \<Rightarrow> error + world" where
  "MkdirAll sy path w =
     (case mkdirAll sy path (dirs w) of
        Inl e \<Rightarrow> Inl (LibError e)
      | Inr ds \<Rightarrow> Inr (w\<lparr>dirs := ds\<rparr>))"

text \<open>The loop over the attachments to download; the messages it prints are left out.\<close>

fun download_loop ::
  "sys \<Rightarrow> Client \<Rightarrow> string \<Rightarrow> Attachment list \<Rightarrow> world \<Rightarrow> exit option \<times> Client \<times> world" where
  "download_loop sy c dir [] w = (None, c, w)"
| "download_loop sy c dir (a # attachments) w =
     (let destPath = filepathJoin sy dir (Filename a)
      in if Stat_ok destPath w
         then (Some (Failed
                 ''File %q already exists. Please remove it or use a different output directory''
                 [destPath]), c, w)
         else (case DownloadAttachment sy c (Content a) destPath w of
                 (Some err, c, w) \<Rightarrow> (Some (ExitIfError err), c, w)
               | (None, c, w) \<Rightarrow> download_loop sy c dir attachments w))"

text \<open>
  \<open>issue\<close> is what \<^verbatim>\<open>api.ProxyGetIssue\<close> answered for the issue key: an error or the
  attachments of the issue, in the order of the tracker. The request that fetches the
  issue is made by code outside the files at hand and is not in \<^const>\<open>sent\<close>.
\<close>

definition download ::
  "sys \<Rightarrow> Client \<Rightarrow> downloadParams \<Rightarrow> error + Attachment list \<Rightarrow> world
     \<Rightarrow> exit option \<times> Client \<times> world" where
  "download sy c params issue w =
     (if issueKey params = [] then (Some (Failed ''ISSUE-KEY is required'' []), c, w)
      else case issue of
        Inl err \<Rightarrow> (Some (ExitIfError err), c, w)
      | Inr attachments \<Rightarrow>
          if length attachments = 0
          then (Some (Failed ''No attachments found for issue %q'' [issueKey params]), c, w)
          else (case (if outputDir params \<noteq> ''.'' then MkdirAll sy (outputDir params) w
                      else Inr w) of
                  Inl err \<Rightarrow> (Some (ExitIfError err), c, w)
                | Inr w \<Rightarrow>
                    (case (if all' params then Inr attachments
                           else if id' params \<noteq> []
                             then findAttachmentByID attachments (id' params)
                           else if filename params \<noteq> []
                             then findAttachmentByFilename attachments (filename params)
                           else Inl (Failed
                                  ''Please specify --all, --id, or provide a filename'' [])) of
                       Inl ex \<Rightarrow> (Some ex, c, w)
                     | Inr attachmentsToDownload \<Rightarrow>
                         download_loop sy c (outputDir params) attachmentsToDownload w)))"

section \<open>Test doubles\<close>

text \<open>
  The request that \<^const>\<open>request\<close> and \<^const>\<open>postWithHeaders\<close> hand to the HTTP client
  once the URL has parsed.
\<close>

definition issued ::
  "Client \<Rightarrow> string \<Rightarrow> string \<Rightarrow> string \<Rightarrow> (string \<times> string) list \<Rightarrow> Request" where
  "issued c m u b hs =
     snd (applyAuth c (set_headers \<lparr>Method = m, URL = u, Header = Map.empty, ReqBody = b\<rparr> hs))"

text \<open>
  A platform on which no call fails, with a JSON decoder that knows the empty array and
  rejects everything else, which is enough for the bodies used below.
\<close>

definition test_sys :: sys where
  "test_sys =
     \<lparr>urlError = (\<lambda>url. None), openError = (\<lambda>name. None), createError = (\<lambda>name. None),
      copyError = (\<lambda>name. None), mkdirAll = (\<lambda>path ds. Inr (insert path ds)),
      createFormFileError = (\<lambda>name. None), readError = (\<lambda>name. None), closeError = None,
      formData = (\<lambda>name content. content),
      formDataContentType = ''multipart/form-data; boundary=b'',
      filepathBase = (\<lambda>path. path), filepathJoin = (\<lambda>dir name. dir @ ''/'' @ name),
      jsonAttachments =
        (\<lambda>body. if body = ''[]'' then Inr []
                else Inl ''invalid character looking for beginning of value''),
      jsonErrors = (\<lambda>body. [])\<rparr>"

text \<open>
  A client as the tests of the package build it, with a server that answers every
  request with the given status and body; a client whose transport gives neither a
  response nor an error; a client without credentials.
\<close>

definition test_client :: "int \<Rightarrow> string \<Rightarrow> string \<Rightarrow> Client" where
  "test_client code status body =
     \<lparr>server = ''http://127.0.0.1'', login = ''test'', token = ''token'', authType = None,
      transport = (\<lambda>req. (Some \<lparr>StatusCode = code, Status = status, Body = body\<rparr>, None))\<rparr>"

definition silent_client :: Client where
  "silent_client =
     \<lparr>server = ''http://127.0.0.1'', login = ''test'', token = ''token'', authType = None,
      transport = (\<lambda>req. (None, None))\<rparr>"

definition anonymous_client :: Client where
  "anonymous_client =
     \<lparr>server = ''http://127.0.0.1'', login = [], token = [], authType = None,
      transport = (\<lambda>req. (None, None))\<rparr>"

definition test_request :: Request where
  "test_request =
     \<lparr>Method = ''GET'', URL = ''http://127.0.0.1/attachments/test.txt'', Header = Map.empty,
      ReqBody = []\<rparr>"

definition test_world :: world where
  "test_world =
     \<lparr>files = [''/tmp/test.txt'' \<mapsto> ''test content''], dirs = {''/tmp''}, sent = []\<rparr>"

text \<open>
  For the download command: a server that answers every request with the URL that was
  asked for, two attachments that share a file name, and the parameters of
  \<^verbatim>\<open>download ISSUE-1 report.txt --output out\<close>.
\<close>

definition echo_client :: Client where
  "echo_client =
     \<lparr>server = ''http://127.0.0.1'', login = ''test'', token = ''token'', authType = None,
      transport = (\<lambda>req. (Some \<lparr>StatusCode = 200, Status = ''200 OK'', Body = URL req\<rparr>, None))\<rparr>"

definition twin_attachments :: "Attachment list" where
  "twin_attachments =
     [\<lparr>ID = ''10001'', Filename = ''notes.txt'',
        Author = \<lparr>DisplayName = ''John Doe'', AccountID = []\<rparr>,
        Created = ''2020-12-01T10:00:00.000+0100'', Size = 5,
        MimeType = ''text/plain'', Content = ''http://127.0.0.1/attachment/10001''\<rparr>,
      \<lparr>ID = ''10002'', Filename = ''report.txt'',
        Author = \<lparr>DisplayName = ''John Doe'', AccountID = []\<rparr>,
        Created = ''2020-12-01T10:00:00.000+0100'', Size = 12,
        MimeType = ''text/plain'', Content = ''http://127.0.0.1/attachment/10002''\<rparr>,
      \<lparr>ID = ''10003'', Filename = ''report.txt'',
        Author = \<lparr>DisplayName = ''Jane Smith'', AccountID = []\<rparr>,
        Created = ''2020-12-02T15:30:00.000+0100'', Size = 12,
        MimeType = ''text/plain'', Content = ''http://127.0.0.1/attachment/10003''\<rparr>]"

definition test_params :: "string \<Rightarrow> downloadParams" where
  "test_params name =
     \<lparr>issueKey = ''ISSUE-1'', filename = name, all' = False, id' = [], outputDir = ''out'',
      debug = False\<rparr>"

section \<open>Properties of the rendering functions\<close>

lemma is_digit_digit_char: "is_digit (digit_char d)"
  unfolding digit_char_def is_digit_def by (rule nth_mem) simp

lemma decimal_digits: "list_all is_digit (decimal n)"
  by (induction n rule: decimal.induct) (subst decimal.simps, simp add: is_digit_digit_char)

lemma decimal_nonempty: "decimal n \<noteq> []"
  by (subst decimal.simps) simp

lemma two_decimals_append:
  "w \<noteq> [] \<Longrightarrow> list_all is_digit w \<Longrightarrow> is_digit d1 \<Longrightarrow> is_digit d2 \<Longrightarrow>
   two_decimals (w @ ''.'' @ [d1, d2])"
  by (cases w) (simp_all add: two_decimals_def nth_append)

lemma sprintf_2f_shape: "0 \<le> x \<Longrightarrow> two_decimals (sprintf_2f x)"
  unfolding sprintf_2f_def Let_def
  by (simp add: two_decimals_append [simplified] decimal_digits decimal_nonempty
      is_digit_digit_char)

lemma round_half_even_near: "\<bar>of_int (round_half_even x) - x\<bar> \<le> 1 / 2"
proof -
  have "of_int \<lfloor>x\<rfloor> \<le> x" "x < of_int \<lfloor>x\<rfloor> + 1" by linarith+
  then show ?thesis
    by (auto simp: round_half_even_def Let_def)
qed

lemma round_half_even_nonneg: "0 \<le> x \<Longrightarrow> 0 \<le> round_half_even x"
  by (auto simp: round_half_even_def Let_def)

lemma bit_length_le: "n < 2 ^ k \<Longrightarrow> bit_length n \<le> k"
proof (induction n arbitrary: k rule: bit_length.induct)
  case (1 n)
  show ?case
  proof (cases "n = 0")
    case True
    then show ?thesis by (simp add: bit_length.simps)
  next
    case False
    with 1(2) obtain j where k: "k = Suc j" by (cases k) auto
    with 1(2) have "n div 2 < 2 ^ j" by auto
    from 1(1)[OF False this] show ?thesis
      using False k by (subst bit_length.simps) simp
  qed
qed

lemma float64_exact: "\<bar>n\<bar> < 2 ^ 53 \<Longrightarrow> float64 n = of_int n"
proof -
  assume "\<bar>n\<bar> < 2 ^ 53"
  then have "nat \<bar>n\<bar> < 2 ^ 53" by (simp add: nat_less_iff)
  from bit_length_le[OF this] show ?thesis by (simp add: float64_def Let_def)
qed

lemma float64_nonneg: "0 \<le> n \<Longrightarrow> 0 \<le> float64 n"
  by (simp add: float64_def Let_def round_half_even_nonneg sgn_if)

lemma float64_units: "float64 KB = 1024" "float64 MB = 1024 ^ 2" "float64 GB = 1024 ^ 3"
  by (simp_all add: KB_def MB_def GB_def float64_exact)

lemma formatSize_B: "0 \<le> b \<Longrightarrow> b < 1024 \<Longrightarrow> formatSize b = decimal (nat b) @ '' B''"
  by (simp add: formatSize_def KB_def MB_def GB_def sprintf_d_def)

lemma formatSize_KB:
  "1024 \<le> b \<Longrightarrow> b < 1024 ^ 2 \<Longrightarrow> formatSize b = sprintf_2f (float64 b / 1024) @ '' KB''"
  by (simp add: formatSize_def float64_units) (simp add: KB_def MB_def GB_def)

lemma formatSize_MB:
  "1024 ^ 2 \<le> b \<Longrightarrow> b < 1024 ^ 3 \<Longrightarrow>
   formatSize b = sprintf_2f (float64 b / 1024 ^ 2) @ '' MB''"
  by (simp add: formatSize_def float64_units) (simp add: KB_def MB_def GB_def)

lemma formatSize_GB:
  "1024 ^ 3 \<le> b \<Longrightarrow> formatSize b = sprintf_2f (float64 b / 1024 ^ 3) @ '' GB''"
  by (simp add: formatSize_def float64_units) (simp add: KB_def MB_def GB_def)

lemmas eval_formatSize =
  formatSize_def KB_def MB_def GB_def sprintf_d_def decimal.simps digit_char_def
  float64_exact Let_def sprintf_2f_def round_half_even_def

lemma formatSize_500: "formatSize 500 = ''500 B''"
  by (simp add: eval_formatSize)

lemma formatSize_1536: "formatSize 1536 = ''1.50 KB''"
  by (simp add: eval_formatSize)

lemma formatSize_2048: "formatSize 2048 = ''2.00 KB''"
  by (simp add: eval_formatSize)

lemma formatSize_5242880: "formatSize 5242880 = ''5.00 MB''"
  by (simp add: eval_formatSize)

lemma formatSize_2147483648: "formatSize 2147483648 = ''2.00 GB''"
  by (simp add: eval_formatSize)

lemma floor_225_halves: "\<lfloor>225 / 2 :: rat\<rfloor> = 112"
  by (simp add: floor_eq_iff)

lemma formatSize_1152: "formatSize 1152 = ''1.12 KB''"
  by (simp add: eval_formatSize floor_225_halves)

text \<open>
  From \<open>2\<^sup>5\<^sup>3\<close> on the conversion to \<^verbatim>\<open>float64\<close> rounds, and the text is that of the
  rounded count: \<open>2\<^sup>5\<^sup>3 + 2\<^sup>2\<^sup>7 + 1\<close> bytes become \<open>2\<^sup>5\<^sup>3 + 2\<^sup>2\<^sup>7\<close>, which is
  \<open>8388608.125\<close> GB and prints, by the tie to even, as \<open>8388608.12\<close>, where the nearest
  hundredth to the count itself is \<open>8388608.13\<close>.
\<close>

lemma bit_length_example: "bit_length 9007199388958721 = 54"
  by (simp add: bit_length.simps)

lemma floor_example: "\<lfloor>9007199388958721 / 2 :: rat\<rfloor> = 4503599694479360"
  by (simp add: floor_eq_iff)

lemma float64_rounds: "float64 9007199388958721 = 9007199388958720"
  using bit_length_example floor_example
  by (simp add: float64_def Let_def round_half_even_def)

lemma floor_example_hundredths: "\<lfloor>1677721625 / 2 :: rat\<rfloor> = 838860812"
  by (simp add: floor_eq_iff)

lemma formatSize_rounded: "formatSize 9007199388958721 = ''8388608.12 GB''"
  using float64_rounds floor_example_hundredths
  by (simp add: formatSize_def KB_def MB_def GB_def float64_exact sprintf_2f_def
      round_half_even_def Let_def decimal.simps digit_char_def)

lemma round_half_even_unique: "\<bar>x - of_int n\<bar> < 1 / 2 \<Longrightarrow> round_half_even x = n"
proof -
  assume a: "\<bar>x - of_int n\<bar> < 1 / 2"
  have f: "of_int \<lfloor>x\<rfloor> \<le> x" "x < of_int \<lfloor>x\<rfloor> + 1" by linarith+
  from a f have "\<lfloor>x\<rfloor> = n \<or> \<lfloor>x\<rfloor> = n - 1" by linarith
  with a f show ?thesis
    by (auto simp: round_half_even_def Let_def)
qed

lemma exact_hundredths: "round_half_even (9007199388958721 / 1024 ^ 3 * 100) = 838860813"
  by (rule round_half_even_unique) simp

text \<open>
  C5. For a byte count \<open>b \<ge> 0\<close>: below 1024 the result is the decimal digits of \<open>b\<close>
  followed by \<open>" B"\<close>; from 1024, from \<open>1024\<^sup>2\<close> and from \<open>1024\<^sup>3\<close> on it is the
  \<^verbatim>\<open>float64\<close> value of \<open>b\<close> divided by that power, printed with exactly two digits after
  the point and followed by \<open>" KB"\<close>, \<open>" MB"\<close> or \<open>" GB"\<close>. The \<^verbatim>\<open>float64\<close> value is
  \<open>b\<close> itself below \<open>2\<^sup>5\<^sup>3\<close>. The five sizes of the tests give the expected texts.
\<close>

theorem formatSize_ranges:
  assumes "0 \<le> b"
  shows "(b < 1024 \<longrightarrow>
            formatSize b = decimal (nat b) @ '' B'' \<and> list_all is_digit (decimal (nat b))) \<and>
         (1024 \<le> b \<and> b < 1024 ^ 2 \<longrightarrow>
            formatSize b = sprintf_2f (float64 b / 1024) @ '' KB'' \<and>
            two_decimals (sprintf_2f (float64 b / 1024))) \<and>
         (1024 ^ 2 \<le> b \<and> b < 1024 ^ 3 \<longrightarrow>
            formatSize b = sprintf_2f (float64 b / 1024 ^ 2) @ '' MB'' \<and>
            two_decimals (sprintf_2f (float64 b / 1024 ^ 2))) \<and>
         (1024 ^ 3 \<le> b \<longrightarrow>
            formatSize b = sprintf_2f (float64 b / 1024 ^ 3) @ '' GB'' \<and>
            two_decimals (sprintf_2f (float64 b / 1024 ^ 3))) \<and>
         (b < 2 ^ 53 \<longrightarrow> float64 b = of_int b) \<and>
         formatSize 500 = ''500 B'' \<and> formatSize 1536 = ''1.50 KB'' \<and>
         formatSize 2048 = ''2.00 KB'' \<and> formatSize 5242880 = ''5.00 MB'' \<and>
         formatSize 2147483648 = ''2.00 GB''"
proof -
  have nn: "0 \<le> float64 b / 1024" "0 \<le> float64 b / 1024 ^ 2" "0 \<le> float64 b / 1024 ^ 3"
    using float64_nonneg[OF assms] by simp_all
  have ex: "b < 2 ^ 53 \<longrightarrow> float64 b = of_int b"
    using assms float64_exact[of b] by simp
  show ?thesis
    using assms nn ex
    by (intro conjI impI formatSize_B formatSize_KB formatSize_MB formatSize_GB
        decimal_digits sprintf_2f_shape formatSize_500 formatSize_1536 formatSize_2048
        formatSize_5242880 formatSize_2147483648) simp_all
qed

theorem formatSize_ranges_witness:
  "(0::int) \<le> 1152 \<and> formatSize 1152 = sprintf_2f (float64 1152 / 1024) @ '' KB'' \<and>
   two_decimals (sprintf_2f (float64 1152 / 1024)) \<and> float64 1152 = of_int 1152 \<and>
   formatSize 1152 = ''1.12 KB''"
proof -
  have h: "(0::int) \<le> 1152" by simp
  have r: "(1024::int) \<le> 1152 \<and> (1152::int) < 1024 ^ 2" "(1152::int) < 2 ^ 53" by simp_all
  from formatSize_ranges [OF h] r
  have "formatSize 1152 = sprintf_2f (float64 1152 / 1024) @ '' KB'' \<and>
        two_decimals (sprintf_2f (float64 1152 / 1024)) \<and> float64 1152 = of_int 1152"
    by blast
  with h formatSize_1152 show ?thesis by blast
qed

text \<open>
  C6. The output is what was already written, the header line, and then one line for
  each attachment in the order of the sequence: the ID, the escaped file name, the size
  in decimal, the escaped display name of the author and the creation time as it is,
  separated by commas. The attachments of the test give its three literal lines.
\<close>

theorem renderCSV_lines:
  "renderCSV w attachments =
     w @ ''ID,FILENAME,SIZE,AUTHOR,CREATED'' @ [CHR 0x0A]
       @ concat (map (\<lambda>a. ID a @ '','' @ escapeCSV (Filename a) @ '','' @ sprintf_d (Size a)
                   @ '','' @ escapeCSV (DisplayName (Author a)) @ '','' @ Created a
                   @ [CHR 0x0A]) attachments)"
proof -
  have "renderCSV_loop v attachments =
          v @ concat (map (\<lambda>a. ID a @ '','' @ escapeCSV (Filename a) @ '',''
                   @ sprintf_d (Size a) @ '','' @ escapeCSV (DisplayName (Author a)) @ '',''
                   @ Created a @ [CHR 0x0A]) attachments)" for v
    by (induction attachments arbitrary: v) simp_all
  then show ?thesis by (simp add: renderCSV_def)
qed

theorem renderCSV_lines_witness:
  "renderCSV [] test_attachments =
     ''ID,FILENAME,SIZE,AUTHOR,CREATED'' @ [CHR 0x0A]
     @ ''10001,document.pdf,1048576,John Doe,2020-12-01T10:00:00.000+0100'' @ [CHR 0x0A]
     @ ''10002,'' @ [CHR 0x22] @ ''file, with comma.txt'' @ [CHR 0x22]
     @ '',524288,Jane Smith,2020-12-02T15:30:00.000+0100'' @ [CHR 0x0A]"
proof -
  have d: "sprintf_d 1048576 = ''1048576''" "sprintf_d 524288 = ''524288''"
    by (simp_all add: sprintf_d_def decimal.simps digit_char_def)
  show ?thesis
    unfolding renderCSV_lines [of "[]" test_attachments]
    by (simp add: test_attachments_def escapeCSV_def d)
qed

text \<open>
  C7. \<open>escapeCSV s\<close> is \<open>s\<close> between two double quotes, with \<open>s\<close> itself untouched,
  exactly when \<open>s\<close> contains a comma, a double quote or a newline; otherwise it is \<open>s\<close>,
  and escaping it again changes nothing.
\<close>

lemma containsSpecialChar_iff:
  "containsSpecialChar s \<longleftrightarrow> CHR '','' \<in> set s \<or> CHR 0x22 \<in> set s \<or> CHR 0x0A \<in> set s"
  by (induction s) auto

theorem escapeCSV_wraps_iff:
  "(escapeCSV s = [CHR 0x22] @ s @ [CHR 0x22]
      \<longleftrightarrow> CHR '','' \<in> set s \<or> CHR 0x22 \<in> set s \<or> CHR 0x0A \<in> set s) \<and>
   (escapeCSV s = s
      \<longleftrightarrow> \<not> (CHR '','' \<in> set s \<or> CHR 0x22 \<in> set s \<or> CHR 0x0A \<in> set s)) \<and>
   (\<not> (CHR '','' \<in> set s \<or> CHR 0x22 \<in> set s \<or> CHR 0x0A \<in> set s)
      \<longrightarrow> escapeCSV (escapeCSV s) = escapeCSV s)"
proof -
  have ne: "[CHR 0x22] @ s @ [CHR 0x22] \<noteq> s"
  proof
    assume "[CHR 0x22] @ s @ [CHR 0x22] = s"
    then have "length ([CHR 0x22] @ s @ [CHR 0x22]) = length s" by simp
    then show False by simp
  qed
  show ?thesis
    using ne by (auto simp: escapeCSV_def containsSpecialChar_iff)
qed

theorem escapeCSV_wraps_iff_witness:
  "escapeCSV ''text, with comma'' = [CHR 0x22] @ ''text, with comma'' @ [CHR 0x22] \<and>
   escapeCSV ''normal text'' = ''normal text'' \<and>
   escapeCSV (escapeCSV ''normal text'') = escapeCSV ''normal text'' \<and>
   escapeCSV (''text '' @ [CHR 0x22] @ ''quoted'' @ [CHR 0x22])
     = [CHR 0x22] @ ''text '' @ [CHR 0x22] @ ''quoted'' @ [CHR 0x22] @ [CHR 0x22]"
  using escapeCSV_wraps_iff [of "''text, with comma''"] escapeCSV_wraps_iff [of "''normal text''"]
    escapeCSV_wraps_iff [of "''text '' @ [CHR 0x22] @ ''quoted'' @ [CHR 0x22]"]
  by simp

text \<open>
  C8. \<open>formatDate s\<close> never panics. It is \<open>s\<close> when \<open>s\<close> has at most 10 bytes and the first
  10 bytes of \<open>s\<close> when it has more.
\<close>

theorem formatDate_prefix:
  "(length s \<le> 10 \<longrightarrow> formatDate s = Some s) \<and>
   (10 < length s \<longrightarrow> formatDate s = Some (take 10 s)) \<and>
   formatDate s \<noteq> None"
  by (simp add: formatDate_def slice_to_def)

theorem formatDate_prefix_witness:
  "formatDate ''2020-12-01T10:00:00.000+0100'' = Some ''2020-12-01'' \<and>
   formatDate ''2020-12-01'' = Some ''2020-12-01'' \<and>
   formatDate ''2020'' = Some ''2020''"
  using formatDate_prefix [of "''2020-12-01T10:00:00.000+0100''"]
    formatDate_prefix [of "''2020-12-01''"] formatDate_prefix [of "''2020''"]
  by simp


section \<open>Properties of the client\<close>

lemma applyAuth_transport [simp]: "transport (fst (applyAuth c req)) = transport c"
  by (auto simp: applyAuth_def Let_def split: option.splits AuthType.splits)

lemma applyAuth_request [simp]:
  "Method (snd (applyAuth c req)) = Method req"
  "URL (snd (applyAuth c req)) = URL req"
  "ReqBody (snd (applyAuth c req)) = ReqBody req"
  by (auto simp: applyAuth_def Let_def SetBasicAuth_def split: option.splits AuthType.splits)

lemma applyAuth_Header:
  "k \<noteq> ''Authorization'' \<Longrightarrow> Header (snd (applyAuth c req)) k = Header req k"
  by (auto simp: applyAuth_def Let_def SetBasicAuth_def Header_Set_def Header_Add_def
      split: option.splits AuthType.splits)

lemma applyAuth_server [simp]: "server (fst (applyAuth c req)) = server c"
  by (auto simp: applyAuth_def Let_def split: option.splits AuthType.splits)

lemma set_headers_request [simp]:
  "Method (set_headers req hs) = Method req"
  "URL (set_headers req hs) = URL req"
  "ReqBody (set_headers req hs) = ReqBody req"
  by (induction req hs rule: set_headers.induct) simp_all

lemma request_eq:
  "request sy c m u b hs w =
     (case urlError sy u of
        Some e \<Rightarrow> ((None, Some (LibError e)), c, w)
      | None \<Rightarrow>
          ((fst (transport c (issued c m u b hs)),
            map_option LibError (snd (transport c (issued c m u b hs)))),
           fst (applyAuth c (set_headers \<lparr>Method = m, URL = u, Header = Map.empty, ReqBody = b\<rparr> hs)),
           w\<lparr>sent := sent w @ [issued c m u b hs]\<rparr>))"
  by (simp add: request_def NewRequest_def Do_def issued_def split: option.splits prod.splits)
     (metis applyAuth_transport fst_conv snd_conv)

lemma postWithHeaders_eq: "postWithHeaders sy c u b hs w = request sy c ''POST'' u b hs w"
  by (simp add: postWithHeaders_def request_def)

lemma issued_request [simp]:
  "Method (issued c m u b hs) = m"
  "URL (issued c m u b hs) = u"
  "ReqBody (issued c m u b hs) = b"
  by (simp_all add: issued_def)

lemma issued_token_header:
  "Header (issued c m u b [(''Content-Type'', ct), (''X-Atlassian-Token'', ''no-check'')])
     ''X-Atlassian-Token'' = Some [''no-check'']"
  by (simp add: issued_def applyAuth_Header Header_Set_def)

lemmas eval_client =
  deleteAttachment_def DeleteV2_def delete_def request_def postWithHeaders_def
  uploadAttachment_def DownloadAttachment_def NewRequest_def applyAuth_def Do_def
  SetBasicAuth_def Header_Set_def Header_Add_def Open_def Create_def Copy_def
  formatUnexpectedResponse_def test_sys_def test_client_def silent_client_def
  test_world_def apiVersion2_def apiVersion3_def baseURLv2_def baseURLv3_def Let_def
  sextet_def base64_alphabet_def issued_def

text \<open>
  C9, as amended. \<open>applyAuth\<close> has no error result. Of the request it changes at most the
  \<open>Authorization\<close> header. Of the client it changes at most the authentication type,
  which it sets to basic when it was unset; a client whose type is set is left as it
  is. In basic mode, and when the mode was unset, the header is set to the basic
  credentials made of the login and the token, whatever they are; in bearer mode, and in
  mutual-TLS mode with a token, the bearer token is added to the header. In mutual-TLS
  mode without a token, and for a mode that is none of the three, the request is left as
  it is.
\<close>

theorem applyAuth_frame:
  "Method (snd (applyAuth c req)) = Method req \<and>
   URL (snd (applyAuth c req)) = URL req \<and>
   ReqBody (snd (applyAuth c req)) = ReqBody req \<and>
   (\<forall>k. k \<noteq> ''Authorization'' \<longrightarrow> Header (snd (applyAuth c req)) k = Header req k) \<and>
   server (fst (applyAuth c req)) = server c \<and>
   login (fst (applyAuth c req)) = login c \<and>
   token (fst (applyAuth c req)) = token c \<and>
   transport (fst (applyAuth c req)) = transport c \<and>
   authType (fst (applyAuth c req))
     = Some (case authType c of None \<Rightarrow> AuthTypeBasic | Some t \<Rightarrow> t) \<and>
   (authType c \<noteq> None \<longrightarrow> fst (applyAuth c req) = c) \<and>
   (authType c = None \<or> authType c = Some AuthTypeBasic \<longrightarrow>
      Header (snd (applyAuth c req)) ''Authorization''
        = Some [''Basic '' @ base64 (login c @ '':'' @ token c)]) \<and>
   (authType c = Some AuthTypeBearer \<or> authType c = Some AuthTypeMTLS \<and> token c \<noteq> [] \<longrightarrow>
      Header (snd (applyAuth c req)) ''Authorization''
        = Some ((case Header req ''Authorization'' of None \<Rightarrow> [] | Some vs \<Rightarrow> vs)
                  @ [''Bearer '' @ token c])) \<and>
   (authType c = Some AuthTypeMTLS \<and> token c = [] \<longrightarrow> snd (applyAuth c req) = req) \<and>
   (\<forall>t. authType c = Some (AuthTypeOther t) \<longrightarrow> snd (applyAuth c req) = req)"
  by (auto simp: applyAuth_def Let_def SetBasicAuth_def Header_Set_def Header_Add_def
      split: option.splits AuthType.splits)

theorem applyAuth_frame_witness:
  "authType (fst (applyAuth (test_client 200 ''200 OK'' []) test_request)) = Some AuthTypeBasic \<and>
   Header (snd (applyAuth (test_client 200 ''200 OK'' []) test_request)) ''Authorization''
     = Some [''Basic dGVzdDp0b2tlbg==''] \<and>
   Header (snd (applyAuth (test_client 200 ''200 OK'' []) test_request)) ''Content-Type''
     = Header test_request ''Content-Type'' \<and>
   snd (applyAuth (anonymous_client\<lparr>authType := Some AuthTypeMTLS\<rparr>) test_request) = test_request \<and>
   fst (applyAuth (anonymous_client\<lparr>authType := Some AuthTypeMTLS\<rparr>) test_request)
     = anonymous_client\<lparr>authType := Some AuthTypeMTLS\<rparr>"
proof -
  have h: "Header (snd (applyAuth (test_client 200 ''200 OK'' []) test_request)) ''Authorization''
             = Some [''Basic dGVzdDp0b2tlbg=='']"
    by (simp add: eval_client test_request_def)
  have m: "authType (anonymous_client\<lparr>authType := Some AuthTypeMTLS\<rparr>) = Some AuthTypeMTLS \<and>
           token (anonymous_client\<lparr>authType := Some AuthTypeMTLS\<rparr>) = []"
    by (simp add: anonymous_client_def)
  have t: "authType (test_client 200 ''200 OK'' []) = None" by (simp add: test_client_def)
  from applyAuth_frame [of "test_client 200 ''200 OK'' []" test_request]
    applyAuth_frame [of "anonymous_client\<lparr>authType := Some AuthTypeMTLS\<rparr>" test_request] h m t
  show ?thesis by simp
qed

text \<open>
  C9 as stated fails for a client with no authentication type and no credentials: the
  client is changed, and the request gets an \<open>Authorization\<close> header for the empty
  login and token.
\<close>

theorem applyAuth_frame_counterexample:
  "fst (applyAuth anonymous_client test_request) \<noteq> anonymous_client \<and>
   authType anonymous_client = None \<and>
   authType (fst (applyAuth anonymous_client test_request)) = Some AuthTypeBasic \<and>
   Header test_request ''Authorization'' = None \<and>
   Header (snd (applyAuth anonymous_client test_request)) ''Authorization'' = Some [''Basic Og=='']"
proof -
  have a: "authType anonymous_client = None" by (simp add: anonymous_client_def)
  have b: "authType (fst (applyAuth anonymous_client test_request)) = Some AuthTypeBasic"
    by (simp add: applyAuth_def anonymous_client_def)
  have c: "Header (snd (applyAuth anonymous_client test_request)) ''Authorization''
             = Some [''Basic Og=='']"
    by (simp add: eval_client anonymous_client_def test_request_def)
  have d: "Header test_request ''Authorization'' = None" by (simp add: test_request_def)
  from a b have "fst (applyAuth anonymous_client test_request) \<noteq> anonymous_client" by auto
  with a b c d show ?thesis by simp
qed

text \<open>
  C2. When the download has sent its request and the server has answered: with a status
  code other than 200 the result is the error \<open>failed to download attachment: status\<close>
  and no file has changed; with the code 200, a failing \<^verbatim>\<open>os.Create\<close> gives its error
  and no file has changed, a failing copy gives its error with the bytes copied so far
  in the destination, and otherwise the result is success with the destination holding
  the body. Success is reported only in that last case.
\<close>

theorem DownloadAttachment_outcome:
  assumes "DownloadAttachment sy c url destPath w = (r, c', w')"
    and "sent w' = sent w @ [req]"
    and "transport c req = (Some res, None)"
  shows "(StatusCode res \<noteq> 200 \<longrightarrow>
            r = Some (Errorf (''failed to download attachment: '' @ Status res)) \<and>
            files w' = files w) \<and>
         (StatusCode res = 200 \<longrightarrow>
            (case createError sy destPath of
               Some e \<Rightarrow> r = Some (LibError e) \<and> files w' = files w
             | None \<Rightarrow>
                 (case copyError sy destPath of
                    Some (n, e) \<Rightarrow>
                      r = Some (LibError e) \<and> files w' = (files w)(destPath \<mapsto> take n (Body res))
                  | None \<Rightarrow> r = None \<and> files w' = (files w)(destPath \<mapsto> Body res)))) \<and>
         (r = None \<longrightarrow> StatusCode res = 200 \<and> files w' destPath = Some (Body res))"
proof -
  obtain c1 q where a: "applyAuth c \<lparr>Method = ''GET'', URL = url, Header = Map.empty, ReqBody = []\<rparr> = (c1, q)"
    by force
  have t: "transport c1 = transport c"
    using applyAuth_transport [of c "\<lparr>Method = ''GET'', URL = url, Header = Map.empty, ReqBody = []\<rparr>"] a
    by simp
  from assms(1,2) a have "req = q \<and> urlError sy url = None"
    by (auto simp: DownloadAttachment_def NewRequest_def Do_def Create_def Copy_def
        split: option.splits sum.splits if_splits prod.splits)
  with assms a t show ?thesis
    by (auto simp: DownloadAttachment_def NewRequest_def Do_def Create_def Copy_def
        split: option.splits sum.splits if_splits)
qed

theorem DownloadAttachment_outcome_witness:
  "fst (DownloadAttachment test_sys (test_client 200 ''200 OK'' ''This is test attachment content'')
          ''http://127.0.0.1/attachments/test.txt'' ''/tmp/downloaded.txt'' test_world) = None \<and>
   files (snd (snd (DownloadAttachment test_sys
            (test_client 200 ''200 OK'' ''This is test attachment content'')
            ''http://127.0.0.1/attachments/test.txt'' ''/tmp/downloaded.txt'' test_world)))
     ''/tmp/downloaded.txt'' = Some ''This is test attachment content'' \<and>
   fst (DownloadAttachment test_sys (test_client 404 ''404 Not Found'' [])
          ''http://127.0.0.1/attachments/test.txt'' ''/tmp/test.txt'' test_world)
     = Some (Errorf ''failed to download attachment: 404 Not Found'') \<and>
   files (snd (snd (DownloadAttachment test_sys (test_client 404 ''404 Not Found'' [])
            ''http://127.0.0.1/attachments/test.txt'' ''/tmp/test.txt'' test_world)))
     = files test_world"
proof -
  let ?c1 = "test_client 200 ''200 OK'' ''This is test attachment content''"
  let ?c2 = "test_client 404 ''404 Not Found'' []"
  let ?A = "DownloadAttachment test_sys ?c1 ''http://127.0.0.1/attachments/test.txt''
              ''/tmp/downloaded.txt'' test_world"
  let ?B = "DownloadAttachment test_sys ?c2 ''http://127.0.0.1/attachments/test.txt''
              ''/tmp/test.txt'' test_world"
  let ?qa = "snd (applyAuth ?c1 test_request)"
  let ?qb = "snd (applyAuth ?c2 test_request)"
  have a1: "?A = (fst ?A, fst (snd ?A), snd (snd ?A))" by simp
  have a2: "sent (snd (snd ?A)) = sent test_world @ [?qa]"
    by (simp add: eval_client test_request_def)
  have a3: "transport ?c1 ?qa
              = (Some \<lparr>StatusCode = 200, Status = ''200 OK'',
                       Body = ''This is test attachment content''\<rparr>, None)"
    by (simp add: test_client_def)
  have b1: "?B = (fst ?B, fst (snd ?B), snd (snd ?B))" by simp
  have b2: "sent (snd (snd ?B)) = sent test_world @ [?qb]"
    by (simp add: eval_client test_request_def)
  have b3: "transport ?c2 ?qb = (Some \<lparr>StatusCode = 404, Status = ''404 Not Found'', Body = []\<rparr>, None)"
    by (simp add: test_client_def)
  from DownloadAttachment_outcome [OF a1 a2 a3] DownloadAttachment_outcome [OF b1 b2 b3]
  show ?thesis by (simp add: test_sys_def)
qed

text \<open>
  C1, as amended. When the upload has sent its request and the server has answered: a
  status code other than 200 gives the \<open>ErrUnexpectedResponse\<close> with the status and the
  structured error messages of the response, and no attachments; the code 200 with a
  body that does not decode gives the decoder's own error, and no attachments; the code
  200 with a body that decodes gives the decoded attachments.
\<close>

theorem uploadAttachment_response:
  assumes "uploadAttachment sy c key filePath ver w = (r, c', w')"
    and "sent w' = sent w @ [req]"
    and "transport c req = (Some res, None)"
  shows "(StatusCode res \<noteq> 200 \<longrightarrow>
            r = Inl (ErrUnexpectedResponse (jsonErrors sy (Body res)) (Status res)
                       (StatusCode res))) \<and>
         (StatusCode res = 200 \<longrightarrow>
            r = (case jsonAttachments sy (Body res) of
                   Inl e \<Rightarrow> Inl (LibError e)
                 | Inr attachments \<Rightarrow> Inr attachments))"
proof -
  define u where "u = server c @ (if ver = apiVersion2 then baseURLv2 else baseURLv3) @ ''/issue/'' @ key @ ''/attachments''"
  define hs where "hs = [(''Content-Type'', formDataContentType sy), (''X-Atlassian-Token'', ''no-check'')]"
  define q where "q = issued c ''POST'' u (formData sy (filepathBase sy filePath) (the (files w filePath))) hs"
  from assms(1,2) have "req = q \<and> urlError sy u = None"
    by (auto simp: uploadAttachment_def Open_def postWithHeaders_eq request_eq Let_def u_def hs_def q_def
        split: option.splits sum.splits if_splits prod.splits)
  with assms show ?thesis
    by (auto simp: uploadAttachment_def Open_def postWithHeaders_eq request_eq Let_def u_def hs_def q_def
        formatUnexpectedResponse_def
        split: option.splits sum.splits if_splits prod.splits)
qed

theorem uploadAttachment_response_witness:
  "fst (uploadAttachment test_sys (test_client 500 ''500 Internal Server Error'' ''oops'')
          ''TEST-1'' ''/tmp/test.txt'' apiVersion3 test_world)
     = Inl (ErrUnexpectedResponse [] ''500 Internal Server Error'' 500) \<and>
   fst (uploadAttachment test_sys (test_client 200 ''200 OK'' ''oops'')
          ''TEST-1'' ''/tmp/test.txt'' apiVersion2 test_world)
     = Inl (LibError ''invalid character looking for beginning of value'') \<and>
   fst (uploadAttachment test_sys (test_client 200 ''200 OK'' ''[]'')
          ''TEST-1'' ''/tmp/test.txt'' apiVersion3 test_world)
     = Inr []"
proof -
  let ?c1 = "test_client 500 ''500 Internal Server Error'' ''oops''"
  let ?c2 = "test_client 200 ''200 OK'' ''oops''"
  let ?c3 = "test_client 200 ''200 OK'' ''[]''"
  let ?hs = "[(''Content-Type'', ''multipart/form-data; boundary=b''),
              (''X-Atlassian-Token'', ''no-check'')]"
  let ?A = "uploadAttachment test_sys ?c1 ''TEST-1'' ''/tmp/test.txt'' apiVersion3 test_world"
  let ?B = "uploadAttachment test_sys ?c2 ''TEST-1'' ''/tmp/test.txt'' apiVersion2 test_world"
  let ?C = "uploadAttachment test_sys ?c3 ''TEST-1'' ''/tmp/test.txt'' apiVersion3 test_world"
  let ?qa = "issued ?c1 ''POST'' ''http://127.0.0.1/rest/api/3/issue/TEST-1/attachments''
               ''test content'' ?hs"
  let ?qb = "issued ?c2 ''POST'' ''http://127.0.0.1/rest/api/2/issue/TEST-1/attachments''
               ''test content'' ?hs"
  let ?qc = "issued ?c3 ''POST'' ''http://127.0.0.1/rest/api/3/issue/TEST-1/attachments''
               ''test content'' ?hs"
  have a1: "?A = (fst ?A, fst (snd ?A), snd (snd ?A))" by simp
  have a2: "sent (snd (snd ?A)) = sent test_world @ [?qa]" by (simp add: eval_client)
  have a3: "transport ?c1 ?qa
              = (Some \<lparr>StatusCode = 500, Status = ''500 Internal Server Error'', Body = ''oops''\<rparr>,
                 None)"
    by (simp add: test_client_def)
  have b1: "?B = (fst ?B, fst (snd ?B), snd (snd ?B))" by simp
  have b2: "sent (snd (snd ?B)) = sent test_world @ [?qb]" by (simp add: eval_client)
  have b3: "transport ?c2 ?qb = (Some \<lparr>StatusCode = 200, Status = ''200 OK'', Body = ''oops''\<rparr>, None)"
    by (simp add: test_client_def)
  have c1: "?C = (fst ?C, fst (snd ?C), snd (snd ?C))" by simp
  have c2: "sent (snd (snd ?C)) = sent test_world @ [?qc]" by (simp add: eval_client)
  have c3: "transport ?c3 ?qc = (Some \<lparr>StatusCode = 200, Status = ''200 OK'', Body = ''[]''\<rparr>, None)"
    by (simp add: test_client_def)
  from uploadAttachment_response [OF a1 a2 a3] uploadAttachment_response [OF b1 b2 b3]
    uploadAttachment_response [OF c1 c2 c3]
  show ?thesis by (simp add: test_sys_def)
qed

text \<open>
  C1 as stated fails where the status code is 200 and the body does not decode: the
  error returned is the decoder's, not an \<open>ErrUnexpectedResponse\<close>.
\<close>

theorem uploadAttachment_decode_counterexample:
  "fst (uploadAttachment test_sys (test_client 200 ''200 OK'' ''oops'') ''TEST-1''
          ''/tmp/test.txt'' apiVersion3 test_world)
     = Inl (LibError ''invalid character looking for beginning of value'')"
  by (simp add: eval_client)

text \<open>
  C3. A delete either could not build its request, and then returns that error without
  sending anything, or sends one request. With a transport error, the error is returned.
  With neither a response nor an error, \<open>ErrEmptyResponse\<close> is returned. With a response,
  the result is success exactly when its status code is 204 or 200, and for any other
  code it is the \<open>ErrUnexpectedResponse\<close> made from that response.
\<close>

theorem deleteAttachment_status:
  assumes "deleteAttachment sy c i ver w = (r, c', w')"
  shows "(sent w' = sent w \<and> (\<exists>e. r = Some (LibError e))) \<or>
         (\<exists>req. sent w' = sent w @ [req] \<and>
            (case transport c req of
               (_, Some e) \<Rightarrow> r = Some (LibError e)
             | (None, None) \<Rightarrow> r = Some ErrEmptyResponse
             | (Some res, None) \<Rightarrow>
                 (r = None \<longleftrightarrow> StatusCode res = 204 \<or> StatusCode res = 200) \<and>
                 (StatusCode res \<noteq> 204 \<and> StatusCode res \<noteq> 200 \<longrightarrow>
                    r = Some (ErrUnexpectedResponse (jsonErrors sy (Body res)) (Status res)
                               (StatusCode res)))))"
proof -
  define u where "u = server c @ (if ver = apiVersion2 then baseURLv2 else baseURLv3) @ ''/attachment/'' @ i"
  have d: "deleteAttachment sy c i ver w =
     (case request sy c ''DELETE'' u [] [] w of
           ((res, Some err), c, w) \<Rightarrow> (Some err, c, w)
         | ((None, None), c, w) \<Rightarrow> (Some ErrEmptyResponse, c, w)
         | ((Some res, None), c, w) \<Rightarrow>
             if StatusCode res \<noteq> 204 \<and> StatusCode res \<noteq> 200
             then (Some (formatUnexpectedResponse sy res), c, w)
             else (None, c, w))"
    by (simp add: deleteAttachment_def DeleteV2_def delete_def u_def Let_def)
  show ?thesis
  proof (cases "urlError sy u")
    case (Some e)
    with assms d show ?thesis by (auto simp: request_eq)
  next
    case None
    obtain res err where t: "transport c (issued c ''DELETE'' u [] []) = (res, err)"
      by (cases "transport c (issued c ''DELETE'' u [] [])") 
    have "\<exists>req. sent w' = sent w @ [req] \<and>
            (case transport c req of
               (_, Some e) \<Rightarrow> r = Some (LibError e)
             | (None, None) \<Rightarrow> r = Some ErrEmptyResponse
             | (Some res, None) \<Rightarrow>
                 (r = None \<longleftrightarrow> StatusCode res = 204 \<or> StatusCode res = 200) \<and>
                 (StatusCode res \<noteq> 204 \<and> StatusCode res \<noteq> 200 \<longrightarrow>
                    r = Some (ErrUnexpectedResponse (jsonErrors sy (Body res)) (Status res)
                               (StatusCode res))))"
      apply (rule exI[of _ "issued c ''DELETE'' u [] []"])
      using assms d None t
      by (auto simp: request_eq formatUnexpectedResponse_def split: option.splits if_splits)
    then show ?thesis ..
  qed
qed

theorem deleteAttachment_status_witness:
  "fst (deleteAttachment test_sys (test_client 404 ''404 Not Found'' []) ''10001'' apiVersion3
          test_world)
     = Some (ErrUnexpectedResponse [] ''404 Not Found'' 404) \<and>
   fst (deleteAttachment test_sys (test_client 204 ''204 No Content'' []) ''10001'' apiVersion3
          test_world) = None \<and>
   fst (deleteAttachment test_sys silent_client ''10001'' apiVersion2 test_world)
     = Some ErrEmptyResponse"
proof -
  let ?A = "deleteAttachment test_sys (test_client 404 ''404 Not Found'' []) ''10001''
              apiVersion3 test_world"
  let ?B = "deleteAttachment test_sys (test_client 204 ''204 No Content'' []) ''10001''
              apiVersion3 test_world"
  let ?C = "deleteAttachment test_sys silent_client ''10001'' apiVersion2 test_world"
  have sa: "sent (snd (snd ?A)) \<noteq> sent test_world"
    and sb: "sent (snd (snd ?B)) \<noteq> sent test_world"
    and sc: "sent (snd (snd ?C)) \<noteq> sent test_world"
    by (simp_all add: eval_client)
  have "?A = (fst ?A, fst (snd ?A), snd (snd ?A))" by simp
  from deleteAttachment_status [OF this] sa
  have a: "fst ?A = Some (ErrUnexpectedResponse [] ''404 Not Found'' 404)"
    by (auto simp: test_client_def test_sys_def)
  have "?B = (fst ?B, fst (snd ?B), snd (snd ?B))" by simp
  from deleteAttachment_status [OF this] sb
  have b: "fst ?B = None"
    by (auto simp: test_client_def test_sys_def)
  have "?C = (fst ?C, fst (snd ?C), snd (snd ?C))" by simp
  from deleteAttachment_status [OF this] sc
  have c: "fst ?C = Some ErrEmptyResponse"
    by (auto simp: silent_client_def)
  from a b c show ?thesis by simp
qed

lemma uploadAttachment_sent:
  assumes "uploadAttachment sy c key filePath ver w = (r, c', w')"
  shows "sent w' = sent w \<or>
         (\<exists>req. sent w' = sent w @ [req] \<and> Method req = ''POST'' \<and>
            URL req = server c @ (if ver = apiVersion2 then baseURLv2 else baseURLv3)
                        @ ''/issue/'' @ key @ ''/attachments'' \<and>
            Header req ''X-Atlassian-Token'' = Some [''no-check''])"
  using assms
  by (auto simp: uploadAttachment_def Open_def postWithHeaders_eq request_eq Let_def
      issued_token_header
      split: option.splits sum.splits if_splits prod.splits)

lemma deleteAttachment_sent:
  assumes "deleteAttachment sy c i ver w = (r, c', w')"
  shows "sent w' = sent w \<or>
         (\<exists>req. sent w' = sent w @ [req] \<and> Method req = ''DELETE'' \<and>
            URL req = server c @ (if ver = apiVersion2 then baseURLv2 else baseURLv3)
                        @ ''/attachment/'' @ i)"
  using assms
  by (auto simp: deleteAttachment_def DeleteV2_def delete_def request_eq Let_def
      split: option.splits sum.splits if_splits prod.splits)

text \<open>
  C4. The request an upload sends is a \<open>POST\<close> to the server followed by
  \<open>/rest/api/2/issue/{key}/attachments\<close> for the flavor \<open>local\<close> and by
  \<open>/rest/api/3/issue/{key}/attachments\<close> for \<open>cloud\<close> or no flavor, and it carries the
  header \<open>X-Atlassian-Token: no-check\<close>; the request a delete sends is a \<open>DELETE\<close> to
  \<open>/rest/api/2/attachment/{id}\<close> or \<open>/rest/api/3/attachment/{id}\<close> in the same way. Each
  operation sends that one request or, when it fails before, none.
\<close>

theorem Proxy_request_paths:
  assumes "ProxyUploadAttachment sy installation c key filePath w = (r, c', w')"
    and "ProxyDeleteAttachment sy installation d i v = (r2, d', v2)"
  shows "(sent w' = sent w \<or>
          (\<exists>req. sent w' = sent w @ [req] \<and> Method req = ''POST'' \<and>
             URL req = server c
                 @ (if installation = Some InstallationTypeLocal then ''/rest/api/2''
                    else ''/rest/api/3'')
                 @ ''/issue/'' @ key @ ''/attachments'' \<and>
             Header req ''X-Atlassian-Token'' = Some [''no-check''])) \<and>
         (sent v2 = sent v \<or>
          (\<exists>req. sent v2 = sent v @ [req] \<and> Method req = ''DELETE'' \<and>
             URL req = server d
                 @ (if installation = Some InstallationTypeLocal then ''/rest/api/2''
                    else ''/rest/api/3'')
                 @ ''/attachment/'' @ i))"
proof (cases "installation = Some InstallationTypeLocal")
  case True
  with assms have "uploadAttachment sy c key filePath apiVersion2 w = (r, c', w')"
    and "deleteAttachment sy d i apiVersion2 v = (r2, d', v2)"
    by (simp_all add: ProxyUploadAttachment_def ProxyDeleteAttachment_def
        UploadAttachmentV2_def DeleteAttachmentV2_def)
  from uploadAttachment_sent [OF this(1)] deleteAttachment_sent [OF this(2)] True
  show ?thesis by (simp add: baseURLv2_def)
next
  case False
  with assms have "uploadAttachment sy c key filePath apiVersion3 w = (r, c', w')"
    and "deleteAttachment sy d i apiVersion3 v = (r2, d', v2)"
    by (simp_all add: ProxyUploadAttachment_def ProxyDeleteAttachment_def
        UploadAttachment_def DeleteAttachment_def)
  from uploadAttachment_sent [OF this(1)] deleteAttachment_sent [OF this(2)] False
  show ?thesis by (simp add: baseURLv3_def apiVersion2_def apiVersion3_def)
qed

lemmas eval_proxy =
  ProxyUploadAttachment_def ProxyDeleteAttachment_def UploadAttachment_def
  UploadAttachmentV2_def DeleteAttachment_def DeleteAttachmentV2_def set_headers.simps

theorem Proxy_request_paths_witness:
  "map URL (sent (snd (snd (ProxyUploadAttachment test_sys (Some InstallationTypeCloud)
       (test_client 200 ''200 OK'' ''[]'') ''TEST-1'' ''/tmp/test.txt'' test_world))))
     = [''http://127.0.0.1/rest/api/3/issue/TEST-1/attachments''] \<and>
   map URL (sent (snd (snd (ProxyUploadAttachment test_sys (Some InstallationTypeLocal)
       (test_client 200 ''200 OK'' ''[]'') ''TEST-1'' ''/tmp/test.txt'' test_world))))
     = [''http://127.0.0.1/rest/api/2/issue/TEST-1/attachments''] \<and>
   map URL (sent (snd (snd (ProxyUploadAttachment test_sys None
       (test_client 200 ''200 OK'' ''[]'') ''TEST-1'' ''/tmp/test.txt'' test_world))))
     = [''http://127.0.0.1/rest/api/3/issue/TEST-1/attachments''] \<and>
   map (\<lambda>req. Header req ''X-Atlassian-Token'')
       (sent (snd (snd (ProxyUploadAttachment test_sys None
          (test_client 200 ''200 OK'' ''[]'') ''TEST-1'' ''/tmp/test.txt'' test_world))))
     = [Some [''no-check'']] \<and>
   map URL (sent (snd (snd (ProxyDeleteAttachment test_sys (Some InstallationTypeCloud)
       (test_client 204 ''204 No Content'' []) ''10001'' test_world))))
     = [''http://127.0.0.1/rest/api/3/attachment/10001''] \<and>
   map URL (sent (snd (snd (ProxyDeleteAttachment test_sys (Some InstallationTypeLocal)
       (test_client 204 ''204 No Content'' []) ''10001'' test_world))))
     = [''http://127.0.0.1/rest/api/2/attachment/10001''] \<and>
   map URL (sent (snd (snd (ProxyDeleteAttachment test_sys None
       (test_client 204 ''204 No Content'' []) ''10001'' test_world))))
     = [''http://127.0.0.1/rest/api/3/attachment/10001'']"
proof -
  let ?U = "\<lambda>inst. ProxyUploadAttachment test_sys inst (test_client 200 ''200 OK'' ''[]'')
                    ''TEST-1'' ''/tmp/test.txt'' test_world"
  let ?D = "\<lambda>inst. ProxyDeleteAttachment test_sys inst (test_client 204 ''204 No Content'' [])
                    ''10001'' test_world"
  have u: "?U inst = (fst (?U inst), fst (snd (?U inst)), snd (snd (?U inst)))" for inst by simp
  have d: "?D inst = (fst (?D inst), fst (snd (?D inst)), snd (snd (?D inst)))" for inst by simp
  have su: "sent (snd (snd (?U inst))) \<noteq> sent test_world" for inst
    by (simp add: eval_proxy eval_client)
  have sd: "sent (snd (snd (?D inst))) \<noteq> sent test_world" for inst
    by (simp add: eval_proxy eval_client)
  have w: "sent test_world = []" "server (test_client a b e) = ''http://127.0.0.1''" for a b e
    by (simp_all add: test_world_def test_client_def)
  from Proxy_request_paths [OF u d, of "Some InstallationTypeCloud"]
    Proxy_request_paths [OF u d, of "Some InstallationTypeLocal"]
    Proxy_request_paths [OF u d, of None] su sd
  show ?thesis by (auto simp: w)
qed

section \<open>Properties of the download command\<close>

lemma findAttachmentByFilename_find:
  "findAttachmentByFilename attachments f =
     (case find (\<lambda>a. Filename a = f) attachments of
        None \<Rightarrow> Inl (Failed ''Attachment with filename %q not found'' [f])
      | Some a \<Rightarrow> Inr [a])"
  by (induction attachments) simp_all

lemma findAttachmentByID_find:
  "findAttachmentByID attachments i =
     (case find (\<lambda>a. ID a = i) attachments of
        None \<Rightarrow> Inl (Failed ''Attachment with ID %q not found'' [i])
      | Some a \<Rightarrow> Inr [a])"
  by (induction attachments) simp_all

lemma DownloadAttachment_frame:
  assumes "DownloadAttachment sy c url destPath w = (r, c', w')"
  shows "((sent w' = sent w \<and> files w' = files w \<and> r \<noteq> None) \<or>
          (\<exists>req. sent w' = sent w @ [req] \<and> Method req = ''GET'' \<and> URL req = url)) \<and>
         (\<forall>path. path \<noteq> destPath \<longrightarrow> files w' path = files w path)"
proof -
  obtain c1 q where a: "applyAuth c \<lparr>Method = ''GET'', URL = url, Header = Map.empty, ReqBody = []\<rparr> = (c1, q)"
    by force
  have "Method q = ''GET'' \<and> URL q = url"
    using applyAuth_request(1,2) [of c "\<lparr>Method = ''GET'', URL = url, Header = Map.empty, ReqBody = []\<rparr>"] a
    by simp
  with assms a show ?thesis
    by (auto simp: DownloadAttachment_def NewRequest_def Do_def Create_def Copy_def
        split: option.splits sum.splits if_splits prod.splits)
qed

lemma download_loop_single:
  assumes "download_loop sy c dir [a] w = (r, c', w')"
  shows "((sent w' = sent w \<and> files w' = files w \<and> r \<noteq> None) \<or>
          (\<exists>req. sent w' = sent w @ [req] \<and> Method req = ''GET'' \<and> URL req = Content a)) \<and>
         (\<forall>path. path \<noteq> filepathJoin sy dir (Filename a) \<longrightarrow> files w' path = files w path)"
proof (cases "Stat_ok (filepathJoin sy dir (Filename a)) w")
  case True
  with assms show ?thesis by (auto simp: Let_def)
next
  case False
  obtain r1 c1 w1 where d: "DownloadAttachment sy c (Content a) (filepathJoin sy dir (Filename a)) w = (r1, c1, w1)"
    by (metis prod_cases3)
  from assms False d have "w' = w1 \<and> (r = None \<longleftrightarrow> r1 = None)"
    by (auto simp: Let_def split: option.splits)
  with DownloadAttachment_frame [OF d] show ?thesis by auto
qed

lemma download_select:
  assumes "\<not> all' p"
    and "download sy c p (Inr attachments) w = (r, c', w')"
  shows "(r \<noteq> None \<and> sent w' = sent w \<and> files w' = files w) \<or>
         (\<exists>a w1. (if id' p \<noteq> [] then find (\<lambda>a. ID a = id' p) attachments
                    else find (\<lambda>a. Filename a = filename p) attachments) = Some a \<and>
                  sent w1 = sent w \<and> files w1 = files w \<and>
                  download_loop sy c (outputDir p) [a] w1 = (r, c', w'))"
proof -
  let ?sel = "if id' p \<noteq> [] then find (\<lambda>a. ID a = id' p) attachments
              else find (\<lambda>a. Filename a = filename p) attachments"
  let ?pick = "if id' p \<noteq> [] then findAttachmentByID attachments (id' p)
               else if filename p \<noteq> []
                 then findAttachmentByFilename attachments (filename p)
               else Inl (Failed ''Please specify --all, --id, or provide a filename'' [])"
  have pick: "(\<exists>ex. ?pick = Inl ex) \<or> (\<exists>a. ?pick = Inr [a] \<and> ?sel = Some a)"
    by (auto simp: findAttachmentByFilename_find findAttachmentByID_find split: option.splits)
  show ?thesis
  proof (cases "issueKey p = [] \<or> attachments = []")
    case True
    with assms(2) show ?thesis by (auto simp: download_def split: if_splits)
  next
    case False
    show ?thesis
    proof (cases "if outputDir p \<noteq> ''.'' then MkdirAll sy (outputDir p) w else Inr w")
      case (Inl err)
      with assms(2) False show ?thesis by (auto simp: download_def split: if_splits)
    next
      case (Inr w1)
      then have w1: "sent w1 = sent w" "files w1 = files w"
        by (auto simp: MkdirAll_def split: if_splits sum.splits)
      from pick show ?thesis
      proof (elim disjE exE conjE)
        fix ex
        assume "?pick = Inl ex"
        with assms False Inr w1 have "r = Some ex \<and> w' = w1"
          by (auto simp: download_def simp del: download_loop.simps)
        with w1 show ?thesis by simp
      next
        fix a
        assume "?pick = Inr [a]" and s: "?sel = Some a"
        with assms False Inr have "download_loop sy c (outputDir p) [a] w1 = (r, c', w')"
          by (simp add: download_def del: download_loop.simps)
        with s w1 show ?thesis by blast
      qed
    qed
  qed
qed

text \<open>
  C10. Selecting by file name or by ID gives the first attachment of the list that
  matches, alone, or terminates the command when none matches. In a download that is
  not \<open>--all\<close>: when no attachment matches the ID (if one is given) or else the file
  name, the command terminates with a failure, no request has been sent and no file has
  changed; when an attachment matches, the first match is the only one that can be
  asked for, the only file that can change is the one named after it in the output
  directory, and a run that ends without failure has sent that request. (The output
  directory itself is made before the selection.)
\<close>

theorem download_selection:
  assumes "\<not> all' p"
    and "download sy c p (Inr attachments) w = (r, c', w')"
    and "sel = (if id' p \<noteq> [] then find (\<lambda>a. ID a = id' p) attachments
                else find (\<lambda>a. Filename a = filename p) attachments)"
  shows "findAttachmentByFilename attachments f =
           (case find (\<lambda>a. Filename a = f) attachments of
              None \<Rightarrow> Inl (Failed ''Attachment with filename %q not found'' [f])
            | Some a \<Rightarrow> Inr [a]) \<and>
         findAttachmentByID attachments i =
           (case find (\<lambda>a. ID a = i) attachments of
              None \<Rightarrow> Inl (Failed ''Attachment with ID %q not found'' [i])
            | Some a \<Rightarrow> Inr [a]) \<and>
         (sel = None \<longrightarrow> r \<noteq> None \<and> sent w' = sent w \<and> files w' = files w) \<and>
         (\<forall>a. sel = Some a \<longrightarrow>
            (sent w' = sent w \<or>
             (\<exists>req. sent w' = sent w @ [req] \<and> Method req = ''GET'' \<and> URL req = Content a)) \<and>
            (\<forall>path. path \<noteq> filepathJoin sy (outputDir p) (Filename a) \<longrightarrow>
                      files w' path = files w path) \<and>
            (r = None \<longrightarrow> sent w' \<noteq> sent w))"
proof -
  from download_select [OF assms(1,2)]
  have "(sel = None \<longrightarrow> r \<noteq> None \<and> sent w' = sent w \<and> files w' = files w) \<and>
         (\<forall>a. sel = Some a \<longrightarrow>
            (sent w' = sent w \<or>
             (\<exists>req. sent w' = sent w @ [req] \<and> Method req = ''GET'' \<and> URL req = Content a)) \<and>
            (\<forall>path. path \<noteq> filepathJoin sy (outputDir p) (Filename a) \<longrightarrow>
                      files w' path = files w path) \<and>
            (r = None \<longrightarrow> sent w' \<noteq> sent w))"
  proof (elim disjE exE conjE)
    assume "r \<noteq> None" "sent w' = sent w" "files w' = files w"
    then show ?thesis by simp
  next
    fix a w1
    assume s: "(if id' p \<noteq> [] then find (\<lambda>a. ID a = id' p) attachments
                else find (\<lambda>a. Filename a = filename p) attachments) = Some a"
      and w1: "sent w1 = sent w" "files w1 = files w"
      and l: "download_loop sy c (outputDir p) [a] w1 = (r, c', w')"
    from s assms(3) have "sel = Some a" by simp
    with download_loop_single [OF l] w1 show ?thesis by auto
  qed
  then show ?thesis
    by (simp add: findAttachmentByFilename_find findAttachmentByID_find)
qed

lemmas eval_download =
  download_def test_params_def twin_attachments_def echo_client_def MkdirAll_def Stat_ok_def

theorem download_selection_witness:
  "fst (download test_sys echo_client (test_params ''report.txt'') (Inr twin_attachments)
          test_world) = None \<and>
   map URL (sent (snd (snd (download test_sys echo_client (test_params ''report.txt'')
                              (Inr twin_attachments) test_world))))
     = [''http://127.0.0.1/attachment/10002''] \<and>
   files (snd (snd (download test_sys echo_client (test_params ''report.txt'')
                      (Inr twin_attachments) test_world))) ''out/report.txt''
     = Some ''http://127.0.0.1/attachment/10002'' \<and>
   fst (download test_sys echo_client (test_params ''missing.txt'') (Inr twin_attachments)
          test_world)
     = Some (Failed ''Attachment with filename %q not found'' [''missing.txt'']) \<and>
   sent (snd (snd (download test_sys echo_client (test_params ''missing.txt'')
                     (Inr twin_attachments) test_world))) = [] \<and>
   files (snd (snd (download test_sys echo_client (test_params ''missing.txt'')
                      (Inr twin_attachments) test_world))) = files test_world"
proof -
  let ?X = "download test_sys echo_client (test_params ''report.txt'') (Inr twin_attachments)
              test_world"
  let ?Y = "download test_sys echo_client (test_params ''missing.txt'') (Inr twin_attachments)
              test_world"
  have p: "\<not> all' (test_params n)" for n by (simp add: test_params_def)
  have x: "?X = (fst ?X, fst (snd ?X), snd (snd ?X))" by simp
  have y: "?Y = (fst ?Y, fst (snd ?Y), snd (snd ?Y))" by simp
  have sx: "(if id' (test_params ''report.txt'') \<noteq> []
             then find (\<lambda>a. ID a = id' (test_params ''report.txt'')) twin_attachments
             else find (\<lambda>a. Filename a = filename (test_params ''report.txt'')) twin_attachments)
            = Some (twin_attachments ! 1)"
    by (simp add: test_params_def twin_attachments_def)
  have sy: "(if id' (test_params ''missing.txt'') \<noteq> []
             then find (\<lambda>a. ID a = id' (test_params ''missing.txt'')) twin_attachments
             else find (\<lambda>a. Filename a = filename (test_params ''missing.txt'')) twin_attachments)
            = None"
    by (simp add: test_params_def twin_attachments_def)
  have ex: "fst ?X = None"
    "files (snd (snd ?X)) ''out/report.txt'' = Some ''http://127.0.0.1/attachment/10002''"
    by (simp_all add: eval_download eval_client)
  have ey: "fst ?Y = Some (Failed ''Attachment with filename %q not found'' [''missing.txt''])"
    by (simp add: eval_download eval_client)
  have c: "Content (twin_attachments ! 1) = ''http://127.0.0.1/attachment/10002''"
    "sent test_world = []"
    by (simp_all add: twin_attachments_def test_world_def)
  from download_selection [OF p x sx [symmetric]] download_selection [OF p y sy [symmetric]]
    ex ey c
  show ?thesis by auto
qed

end
